theory Spec2Isabelle
  imports Complex_Main "HOL-Library.Word" "HOL-Library.Sublist"
begin

section \<open>The test monitor of src/scripts/utils/test-monitor.js\<close>

text \<open>
  The class \<^verbatim>\<open>TestMonitor\<close> is embedded as a record of its fields together with the part
  of the browser it talks to, and each method as a function from that record to the
  updated record. Conventions of the embedding:
  \<^item> JavaScript numbers that hold pixel means and face coordinates are exact reals,
    with \<open>NaN\<close> written out where the arithmetic of the source can produce it. The
    rounding of IEEE doubles is not modelled; the values of the scenarios below (bytes,
    halves of integers, the thresholds 20, 50 and 100) are exact in both.
  \<^item> The host callbacks \<^verbatim>\<open>onViolation\<close> and \<^verbatim>\<open>onCameraError\<close>, the console and the
    events dispatched on the document are opaque to the monitor: a call is recorded, in
    order, in the field \<open>trace\<close>. The callbacks are taken to return normally and not to
    call back into the monitor.
  \<^item> What the browser supplies (the outcome of \<^verbatim>\<open>getUserMedia\<close>, whether \<^verbatim>\<open>FaceDetector\<close>
    exists, a captured frame, the answer of \<^verbatim>\<open>detect\<close>, the clock) is an argument of
    the function that consumes it, or a field of the record that the environment sets.
\<close>

subsection \<open>Data model\<close>

datatype severity = Low | Medium | High

record violation =
  type :: string
  timestamp :: string
  severity :: severity

record monitor_options =
  enableCameraMonitoring :: bool
  enableTabSwitchDetection :: bool
  enableFullscreenMonitoring :: bool
  enableKeyboardMonitoring :: bool

text \<open>A media track is live until \<^verbatim>\<open>track.stop()\<close>; an element is in the document until
  \<^verbatim>\<open>remove()\<close>.\<close>

datatype readyState = Live | Ended

datatype element = Attached | Detached

text \<open>A JavaScript number as far as the brightness analysis needs it: \<open>0/0\<close> is \<open>NaN\<close>.\<close>

datatype number = NaN | Num real

datatype listener =
  OnVisibilityChange | OnBlur | OnFullscreenChange | OnKeydown | OnContextMenu | OnSelectStart

datatype fullscreenMethod =
  RequestFullscreen | WebkitRequestFullscreen | MozRequestFullScreen | MsRequestFullscreen

datatype level = Error | Warn | Log

datatype effect =
    Console level string
  | OnViolation violation "violation list"
  | OnCameraError string
  | DispatchEvent string string "violation list"
  | PreventDefault
  | CallFullscreen fullscreenMethod
  | SetTimeout nat

text \<open>
  The fields of \<^verbatim>\<open>this\<close> as the constructor declares them (\<^verbatim>\<open>lastBrightness\<close> is first
  assigned by the brightness analysis and is \<^verbatim>\<open>undefined\<close>, here \<open>None\<close>, before);
  \<^verbatim>\<open>canvas\<close> and \<^verbatim>\<open>context\<close> are created by \<^verbatim>\<open>setupCamera\<close> in the same step as
  \<^verbatim>\<open>video\<close> and are never assigned elsewhere, so \<open>video\<close> stands for the three.
  The stream and the element are held by value: nothing but the monitor changes them.
  The last four fields are the environment: the clock reading that
  \<^verbatim>\<open>new Date().toISOString()\<close> returns, the listeners registered on the document and
  the window in registration order, the fullscreen request methods that the document
  element has, and the calls made to the outside so far.
\<close>

record monitor =
  options :: monitor_options
  isActive :: bool
  violations :: "violation list"
  stream :: "readyState list option"
  video :: "element option"
  faceDetectionModel :: bool
  lastFacePosition :: "(real \<times> real) option"
  lastBrightness :: "number option"
  alertThreshold :: nat
  now :: string
  listeners :: "listener list"
  fullscreenSupport :: "fullscreenMethod list"
  trace :: "effect list"

definition emit :: "effect \<Rightarrow> monitor \<Rightarrow> monitor" where
  "emit e w = w\<lparr>trace := trace w @ [e]\<rparr>"

text \<open>The constructor: the defaults of \<^verbatim>\<open>this.options\<close> overridden by the given options.\<close>

definition defaultOptions :: monitor_options where
  "defaultOptions = \<lparr>enableCameraMonitoring = True, enableTabSwitchDetection = True,
     enableFullscreenMonitoring = True, enableKeyboardMonitoring = True\<rparr>"

definition TestMonitor :: "monitor_options \<Rightarrow> string \<Rightarrow> fullscreenMethod list \<Rightarrow> monitor" where
  "TestMonitor opts clock fs =
     \<lparr>options = opts, isActive = False, violations = [], stream = None, video = None,
      faceDetectionModel = False, lastFacePosition = None, lastBrightness = None,
      alertThreshold = 3, now = clock, listeners = [], fullscreenSupport = fs, trace = []\<rparr>"

subsection \<open>Severity classifier and violation recorder\<close>

text \<open>\<^verbatim>\<open>String.prototype.includes\<close>: the needle occurs at some position of the string.\<close>

fun str_includes :: "string \<Rightarrow> string \<Rightarrow> bool" where
  "str_includes [] s = (s = [])"
| "str_includes (c # cs) s = (prefix s (c # cs) \<or> str_includes cs s)"

definition highSeverity :: "string list" where
  "highSeverity = [''Tab switch detected'', ''Exited fullscreen mode'', ''Window lost focus'']"

definition mediumSeverity :: "string list" where
  "mediumSeverity = [''No face detected'', ''Suspicious head movement'']"

definition getViolationSeverity :: "string \<Rightarrow> severity" where
  "getViolationSeverity ty =
     (if list_ex (\<lambda>violation. str_includes ty violation) highSeverity then High
      else if list_ex (\<lambda>violation. str_includes ty violation) mediumSeverity then Medium
      else Low)"

definition triggerAutoSubmit :: "monitor \<Rightarrow> monitor" where
  "triggerAutoSubmit w =
     emit (DispatchEvent ''testAutoSubmit'' ''Multiple violations detected'' (violations w))
       (emit (Console Warn ''Multiple violations detected - triggering auto-submit'') w)"

definition recordViolation :: "string \<Rightarrow> monitor \<Rightarrow> monitor" where
  "recordViolation ty w =
     (let violation = \<lparr>type = ty, timestamp = now w, severity = getViolationSeverity ty\<rparr>;
          w1 = w\<lparr>violations := violations w @ [violation]\<rparr>;
          w2 = emit (Console Warn ''Test violation:'') w1;
          w3 = emit (OnViolation violation (violations w2)) w2
      in if alertThreshold w3 \<le> length (violations w3) then triggerAutoSubmit w3 else w3)"

text \<open>The auto-submit signals in a trace: reason and log carried by each, in order.\<close>

fun autoSubmits :: "effect list \<Rightarrow> (string \<times> violation list) list" where
  "autoSubmits [] = []"
| "autoSubmits (DispatchEvent name reason vs # es) =
     (if name = ''testAutoSubmit'' then (reason, vs) # autoSubmits es else autoSubmits es)"
| "autoSubmits (_ # es) = autoSubmits es"

subsection \<open>Signal listeners\<close>

record keyboardEvent =
  key :: string
  ctrlKey :: bool
  shiftKey :: bool
  altKey :: bool

text \<open>
  The events the monitor listens to. \<open>Visibilitychange hidden\<close> carries the value of
  \<^verbatim>\<open>document.hidden\<close> when the listener runs, \<open>Fullscreenchange el\<close> whether
  \<^verbatim>\<open>document.fullscreenElement\<close> is set then.
\<close>

datatype event =
    Visibilitychange bool
  | Blur
  | Fullscreenchange bool
  | Keydown keyboardEvent
  | Contextmenu
  | Selectstart

definition blockedKeys :: "string list" where
  "blockedKeys = [''Escape'', ''F11'', ''F12'', ''PrintScreen'']"

definition blockedCombos :: "keyboardEvent \<Rightarrow> bool list" where
  "blockedCombos event =
     [ctrlKey event \<and> key event = ''c'',
      ctrlKey event \<and> key event = ''v'',
      ctrlKey event \<and> shiftKey event \<and> key event = ''I'',
      altKey event \<and> key event = ''Tab'']"

text \<open>The body of each arrow function that \<^verbatim>\<open>setupEventListeners\<close> registers; a listener
  is not called for an event of another type.\<close>

fun listenerBody :: "listener \<Rightarrow> event \<Rightarrow> monitor \<Rightarrow> monitor" where
  "listenerBody OnVisibilityChange (Visibilitychange hidden) w =
     (if hidden \<and> isActive w then recordViolation ''Tab switch detected'' w else w)"
| "listenerBody OnBlur Blur w =
     (if isActive w then recordViolation ''Window lost focus'' w else w)"
| "listenerBody OnFullscreenChange (Fullscreenchange fullscreenElement) w =
     (if \<not> fullscreenElement \<and> isActive w then recordViolation ''Exited fullscreen mode'' w
      else w)"
| "listenerBody OnKeydown (Keydown event) w =
     (if \<not> isActive w then w
      else if key event \<in> set blockedKeys \<or> list_ex (\<lambda>combo. combo) (blockedCombos event)
        then recordViolation (''Blocked key pressed: '' @ key event) (emit PreventDefault w)
      else w)"
| "listenerBody OnContextMenu Contextmenu w =
     (if isActive w then recordViolation ''Right-click attempted'' (emit PreventDefault w)
      else w)"
| "listenerBody OnSelectStart Selectstart w =
     (if isActive w then emit PreventDefault w else w)"
| "listenerBody _ _ w = w"

definition setupEventListeners :: "monitor \<Rightarrow> monitor" where
  "setupEventListeners w =
     (let w1 = (if enableTabSwitchDetection (options w)
                then w\<lparr>listeners := listeners w @ [OnVisibilityChange, OnBlur]\<rparr> else w);
          w2 = (if enableFullscreenMonitoring (options w1)
                then w1\<lparr>listeners := listeners w1 @ [OnFullscreenChange]\<rparr> else w1);
          w3 = (if enableKeyboardMonitoring (options w2)
                then w2\<lparr>listeners := listeners w2 @ [OnKeydown]\<rparr> else w2)
      in w3\<lparr>listeners := listeners w3 @ [OnContextMenu, OnSelectStart]\<rparr>)"

text \<open>The browser delivers an event, at clock reading \<open>clock\<close>, to every registered
  listener in registration order.\<close>

definition deliver :: "string \<times> event \<Rightarrow> monitor \<Rightarrow> monitor" where
  "deliver ce w = fold (\<lambda>l. listenerBody l (snd ce)) (listeners w) (w\<lparr>now := fst ce\<rparr>)"

subsection \<open>Lifecycle: initialize, start, stop\<close>

text \<open>\<^verbatim>\<open>getUserMedia\<close> rejects with an error (its message on the left) or resolves to a
  stream (its tracks on the right); any failure is rethrown with a prefixed message.\<close>

definition setupCamera :: "string + readyState list \<Rightarrow> monitor \<Rightarrow> string + monitor" where
  "setupCamera getUserMedia w =
     (case getUserMedia of
        Inl message \<Rightarrow> Inl (''Camera access denied: '' @ message)
      | Inr tracks \<Rightarrow> Inr (w\<lparr>stream := Some tracks, video := Some Attached\<rparr>))"

definition loadFaceDetection :: "bool \<Rightarrow> monitor \<Rightarrow> monitor" where
  "loadFaceDetection faceDetectorInWindow w =
     (if faceDetectorInWindow then w\<lparr>faceDetectionModel := True\<rparr>
      else emit (Console Warn ''Face detection API not available, using fallback method'') w)"

text \<open>The \<^verbatim>\<open>try\<close> block of \<^verbatim>\<open>initialize\<close> is the inner \<open>case\<close>: \<open>Inl\<close> is the thrown error,
  handled by the \<^verbatim>\<open>catch\<close> branch. The result is the returned boolean and the new state.\<close>

definition initialize :: "string + readyState list \<Rightarrow> bool \<Rightarrow> monitor \<Rightarrow> bool \<times> monitor" where
  "initialize getUserMedia faceDetectorInWindow w =
     (case (if enableCameraMonitoring (options w)
            then (case setupCamera getUserMedia w of
                    Inl error \<Rightarrow> Inl error
                  | Inr w1 \<Rightarrow> Inr (loadFaceDetection faceDetectorInWindow w1))
            else Inr w) of
        Inr w2 \<Rightarrow> (True, setupEventListeners w2)
      | Inl error \<Rightarrow>
          (False, emit (OnCameraError error)
                    (emit (Console Error ''Failed to initialize test monitor:'') w)))"

definition enterFullscreen :: "monitor \<Rightarrow> monitor" where
  "enterFullscreen w =
     (if RequestFullscreen \<in> set (fullscreenSupport w)
        then emit (CallFullscreen RequestFullscreen) w
      else if WebkitRequestFullscreen \<in> set (fullscreenSupport w)
        then emit (CallFullscreen WebkitRequestFullscreen) w
      else if MozRequestFullScreen \<in> set (fullscreenSupport w)
        then emit (CallFullscreen MozRequestFullScreen) w
      else if MsRequestFullscreen \<in> set (fullscreenSupport w)
        then emit (CallFullscreen MsRequestFullscreen) w
      else w)"

definition stopMonitoring :: "monitor \<Rightarrow> monitor" where
  "stopMonitoring w =
     (let w1 = w\<lparr>isActive := False\<rparr>;
          w2 = (case stream w1 of
                  None \<Rightarrow> w1
                | Some tracks \<Rightarrow> w1\<lparr>stream := Some (map (\<lambda>track. Ended) tracks)\<rparr>);
          w3 = (case video w2 of
                  None \<Rightarrow> w2
                | Some _ \<Rightarrow> w2\<lparr>video := Some Detached\<rparr>)
      in emit (Console Log ''Test monitoring stopped'') w3)"

subsection \<open>Camera sampler and presence analyzer\<close>

text \<open>The pixels of \<^verbatim>\<open>getImageData\<close>: four bytes (red, green, blue, alpha) each.\<close>

type_synonym imageData = "(8 word \<times> 8 word \<times> 8 word \<times> 8 word) list"

datatype boundingBox = BoundingBox real real real real

text \<open>The awaited \<^verbatim>\<open>detect\<close> call rejects, or resolves to the bounding boxes of the
  faces found.\<close>

datatype detection = DetectFailed string | Detected "boundingBox list"

definition meanBrightness :: "imageData \<Rightarrow> number" where
  "meanBrightness pixels =
     (let brightness =
            fold (\<lambda>(r, g, b, a) brightness. brightness + real (unat r + unat g + unat b) / 3)
              pixels 0
      in if pixels = [] then NaN else Num (brightness / real (length pixels)))"

text \<open>Truthiness of \<^verbatim>\<open>this.lastBrightness\<close>: \<^verbatim>\<open>undefined\<close>, \<open>NaN\<close> and \<open>0\<close> are falsy.\<close>

fun truthy :: "number option \<Rightarrow> bool" where
  "truthy None = False"
| "truthy (Some NaN) = False"
| "truthy (Some (Num v)) = (v \<noteq> 0)"

text \<open>\<^verbatim>\<open>Math.abs(a - b) > c\<close>; a comparison with \<open>NaN\<close> is false.\<close>

fun absDiffExceeds :: "number \<Rightarrow> number option \<Rightarrow> real \<Rightarrow> bool" where
  "absDiffExceeds (Num a) (Some (Num b)) c = (\<bar>a - b\<bar> > c)"
| "absDiffExceeds _ _ _ = False"

text \<open>The \<^verbatim>\<open>else\<close> branch of \<^verbatim>\<open>analyzeFacePosition\<close>: it has no \<^verbatim>\<open>await\<close>, so it runs
  to its end inside the call.\<close>

definition analyzeFacePosition_fallback :: "imageData \<Rightarrow> monitor \<Rightarrow> monitor" where
  "analyzeFacePosition_fallback pixels w =
     (let brightness = meanBrightness pixels;
          w1 = (if truthy (lastBrightness w) \<and> absDiffExceeds brightness (lastBrightness w) 20
                then recordViolation ''Significant movement detected'' w else w)
      in w1\<lparr>lastBrightness := Some brightness\<rparr>)"

text \<open>The \<^verbatim>\<open>then\<close> branch of \<^verbatim>\<open>analyzeFacePosition\<close> from the point where the awaited
  \<^verbatim>\<open>detect\<close> call settles, on the state the monitor has at that time.\<close>

fun analyzeFacePosition_native :: "detection \<Rightarrow> monitor \<Rightarrow> monitor" where
  "analyzeFacePosition_native (DetectFailed error) w =
     emit (Console Error ''Face detection failed:'') w"
| "analyzeFacePosition_native (Detected []) w =
     recordViolation ''No face detected - looking away'' w"
| "analyzeFacePosition_native (Detected (BoundingBox x y width height # _)) w =
     (let currentPosition = (x + width / 2, y + height / 2);
          w1 = (case lastFacePosition w of
                  None \<Rightarrow> w
                | Some lastPosition \<Rightarrow>
                    (let deltaX = \<bar>fst currentPosition - fst lastPosition\<bar>;
                         deltaY = \<bar>snd currentPosition - snd lastPosition\<bar>
                     in if deltaX > 100 \<or> deltaY > 50
                        then recordViolation ''Suspicious head movement detected'' w else w))
      in w1\<lparr>lastFacePosition := Some currentPosition\<rparr>)"

text \<open>A whole call of \<^verbatim>\<open>analyzeFacePosition\<close> when nothing else runs while \<^verbatim>\<open>detect\<close> is
  awaited: the branch is chosen by \<^verbatim>\<open>this.faceDetectionModel\<close>.\<close>

definition analyzeFacePosition :: "imageData \<Rightarrow> detection \<Rightarrow> monitor \<Rightarrow> monitor" where
  "analyzeFacePosition imageData faces w =
     (if faceDetectionModel w then analyzeFacePosition_native faces w
      else analyzeFacePosition_fallback imageData w)"

text \<open>
  One cycle of the sampler is an \<^verbatim>\<open>async\<close> function: it runs inside the call up to its
  first \<^verbatim>\<open>await\<close> and resumes later, after whatever else the event loop ran in between.
  \<open>startCameraAnalysis\<close> is the part inside the call, on the frame that
  \<^verbatim>\<open>drawImage\<close>/\<^verbatim>\<open>getImageData\<close> capture; it tells where the cycle stands:
  \<^item> \<open>Returned\<close>: the guard returned, nothing is pending;
  \<^item> \<open>AwaitingDetect\<close>: native path, suspended at \<^verbatim>\<open>await detect(canvas)\<close>;
  \<^item> \<open>AwaitingAnalysis\<close>: fallback path, the analysis has run and the cycle is suspended
    at the \<^verbatim>\<open>await\<close> of its result.
  \<open>resumeCameraAnalysis\<close> is the rest of the cycle: the analysis of the detector's answer
  on the native path, then the decision to schedule the next cycle. Nothing in the model
  throws between the two, so the \<^verbatim>\<open>catch\<close> of \<^verbatim>\<open>startCameraAnalysis\<close> is never entered.
\<close>

datatype cycle = Returned | AwaitingDetect | AwaitingAnalysis

definition startCameraAnalysis :: "imageData \<Rightarrow> monitor \<Rightarrow> cycle \<times> monitor" where
  "startCameraAnalysis imageData w =
     (if \<not> isActive w \<or> video w = None then (Returned, w)
      else if faceDetectionModel w then (AwaitingDetect, w)
      else (AwaitingAnalysis, analyzeFacePosition_fallback imageData w))"

definition resumeCameraAnalysis :: "cycle \<Rightarrow> detection \<Rightarrow> monitor \<Rightarrow> monitor" where
  "resumeCameraAnalysis c faces w =
     (case c of
        Returned \<Rightarrow> w
      | _ \<Rightarrow>
         (let w1 = (case c of AwaitingDetect \<Rightarrow> analyzeFacePosition_native faces w | _ \<Rightarrow> w)
          in if isActive w1 then emit (SetTimeout 1000) w1 else w1))"

text \<open>\<^verbatim>\<open>startMonitoring\<close> calls \<^verbatim>\<open>startCameraAnalysis\<close> without awaiting it: the first cycle
  runs up to its first \<^verbatim>\<open>await\<close> before the fullscreen request.\<close>

definition startMonitoring :: "imageData \<Rightarrow> monitor \<Rightarrow> cycle \<times> monitor" where
  "startMonitoring imageData w =
     (let w1 = w\<lparr>isActive := True, violations := []\<rparr>;
          (c, w2) = (if enableCameraMonitoring (options w1) \<and> video w1 \<noteq> None
                     then startCameraAnalysis imageData w1 else (Returned, w1));
          w3 = (if enableFullscreenMonitoring (options w2) then enterFullscreen w2 else w2)
      in (c, emit (Console Log ''Test monitoring started'') w3))"

subsection \<open>Summary reporter\<close>

text \<open>
  \<^verbatim>\<open>byType\<close> and \<^verbatim>\<open>bySeverity\<close> are object literals used as dictionaries. An object is
  its own properties in creation order; reading a name it does not own finds the
  members that every object inherits from \<^verbatim>\<open>Object.prototype\<close>. A value is a number, an
  inherited member (a function or an object, truthy), or the text that \<^verbatim>\<open>+ 1\<close> makes
  of a value that is not a number.
\<close>

datatype jsvalue = Number nat | Inherited | Text

type_synonym jsobject = "(string \<times> jsvalue) list"

definition objectPrototype :: "string list" where
  "objectPrototype =
     [''constructor'', ''__proto__'', ''hasOwnProperty'', ''isPrototypeOf'',
      ''propertyIsEnumerable'', ''toLocaleString'', ''toString'', ''valueOf'',
      ''__defineGetter__'', ''__defineSetter__'', ''__lookupGetter__'', ''__lookupSetter__'']"

text \<open>\<^verbatim>\<open>acc[k]\<close>; \<open>None\<close> is \<^verbatim>\<open>undefined\<close>.\<close>

definition getProp :: "jsobject \<Rightarrow> string \<Rightarrow> jsvalue option" where
  "getProp acc k =
     (case map_of acc k of
        Some v \<Rightarrow> Some v
      | None \<Rightarrow> if k \<in> set objectPrototype then Some Inherited else None)"

text \<open>\<^verbatim>\<open>acc[k] = v\<close>: the inherited setter of \<^verbatim>\<open>__proto__\<close> ignores a value that is not an
  object; any other name becomes or stays an own property.\<close>

fun setOwn :: "jsobject \<Rightarrow> string \<Rightarrow> jsvalue \<Rightarrow> jsobject" where
  "setOwn [] k v = [(k, v)]"
| "setOwn ((k', v') # ps) k v = (if k' = k then (k, v) # ps else (k', v') # setOwn ps k v)"

definition setProp :: "jsobject \<Rightarrow> string \<Rightarrow> jsvalue \<Rightarrow> jsobject" where
  "setProp acc k v = (if k = ''__proto__'' then acc else setOwn acc k v)"

text \<open>\<^verbatim>\<open>(v || 0) + 1\<close>: \<^verbatim>\<open>undefined\<close> and \<open>0\<close> are falsy and give \<open>1\<close>; a number gives its
  successor; anything else is concatenated with \<^verbatim>\<open>"1"\<close>.\<close>

fun orZeroPlusOne :: "jsvalue option \<Rightarrow> jsvalue" where
  "orZeroPlusOne None = Number 1"
| "orZeroPlusOne (Some (Number n)) = Number (n + 1)"
| "orZeroPlusOne (Some _) = Text"

text \<open>The reducer of both \<^verbatim>\<open>reduce\<close> calls, for a key \<open>k\<close>.\<close>

definition countKey :: "string \<Rightarrow> jsobject \<Rightarrow> jsobject" where
  "countKey k acc = setProp acc k (orZeroPlusOne (getProp acc k))"

fun severityString :: "severity \<Rightarrow> string" where
  "severityString Low = ''low''"
| "severityString Medium = ''medium''"
| "severityString High = ''high''"

record summary =
  total :: nat
  byType :: jsobject
  bySeverity :: jsobject
  summaryViolations :: "violation list"

definition getViolationSummary :: "monitor \<Rightarrow> summary \<times> monitor" where
  "getViolationSummary w =
     (\<lparr>total = length (violations w),
       byType = fold (\<lambda>violation acc. countKey (type violation) acc) (violations w) [],
       bySeverity =
         fold (\<lambda>violation acc. countKey (severityString (severity violation)) acc)
           (violations w) [],
       summaryViolations = violations w\<rparr>, w)"


subsection \<open>Observations on traces and runs\<close>

text \<open>The delays of the timers set in a trace, in order.\<close>

fun scheduled :: "effect list \<Rightarrow> nat list" where
  "scheduled [] = []"
| "scheduled (SetTimeout ms # es) = ms # scheduled es"
| "scheduled (_ # es) = scheduled es"

text \<open>The \<^verbatim>\<open>onCameraError\<close> calls in a trace: the message of each, in order.\<close>

fun cameraErrors :: "effect list \<Rightarrow> string list" where
  "cameraErrors [] = []"
| "cameraErrors (OnCameraError message # es) = message # cameraErrors es"
| "cameraErrors (_ # es) = cameraErrors es"


text \<open>
  What can happen to a monitor without a new call of \<open>startMonitoring\<close>: a timer of the
  sampler fires (with the frame it would capture), an awaited analysis settles, an event
  arrives, or the host calls \<open>stopMonitoring\<close>.
\<close>

datatype occurrence =
    TimerFires imageData
  | AnalysisSettles cycle detection
  | EventArrives "string \<times> event"
  | StopCalled

fun occur :: "occurrence \<Rightarrow> monitor \<Rightarrow> monitor" where
  "occur (TimerFires imageData) w = snd (startCameraAnalysis imageData w)"
| "occur (AnalysisSettles c faces) w = resumeCameraAnalysis c faces w"
| "occur (EventArrives ce) w = deliver ce w"
| "occur StopCalled w = stopMonitoring w"

subsection \<open>Example monitors\<close>

text \<open>A monitor with the default options, and the same after a successful \<open>initialize\<close> in
  a browser with and without \<^verbatim>\<open>FaceDetector\<close>.\<close>

definition freshMonitor :: monitor where
  "freshMonitor = TestMonitor defaultOptions ''2024-01-01T00:00:00.000Z'' [RequestFullscreen]"

definition nativeMonitor :: monitor where
  "nativeMonitor = snd (initialize (Inr [Live]) True freshMonitor)"

definition fallbackMonitor :: monitor where
  "fallbackMonitor = snd (initialize (Inr [Live]) False freshMonitor)"

section \<open>Properties\<close>

subsection \<open>Severity classification\<close>

lemma str_includes_sublist: "str_includes t s = sublist s t"
  by (induction t) (simp_all add: sublist_Cons_right)

lemma str_includes_iff: "str_includes t s = (\<exists>p q. t = p @ s @ q)"
  by (simp add: str_includes_sublist sublist_def)

text \<open>
  C3. The classifier is a function of the type string alone, evaluated in priority
  order: a type that contains one of "Tab switch detected", "Exited fullscreen mode",
  "Window lost focus" is high; otherwise one that contains "No face detected" or
  "Suspicious head movement" is medium; every other type is low, and so is
  "Blocked key pressed: I".
\<close>

theorem getViolationSeverity_table:
  "getViolationSeverity t =
     (if (\<exists>p q. t = p @ ''Tab switch detected'' @ q)
         \<or> (\<exists>p q. t = p @ ''Exited fullscreen mode'' @ q)
         \<or> (\<exists>p q. t = p @ ''Window lost focus'' @ q) then High
      else if (\<exists>p q. t = p @ ''No face detected'' @ q)
         \<or> (\<exists>p q. t = p @ ''Suspicious head movement'' @ q) then Medium
      else Low)
   \<and> getViolationSeverity ''Blocked key pressed: I'' = Low"
proof
  show "getViolationSeverity t =
     (if (\<exists>p q. t = p @ ''Tab switch detected'' @ q)
         \<or> (\<exists>p q. t = p @ ''Exited fullscreen mode'' @ q)
         \<or> (\<exists>p q. t = p @ ''Window lost focus'' @ q) then High
      else if (\<exists>p q. t = p @ ''No face detected'' @ q)
         \<or> (\<exists>p q. t = p @ ''Suspicious head movement'' @ q) then Medium
      else Low)"
    unfolding getViolationSeverity_def highSeverity_def mediumSeverity_def
    by (simp only: list_ex_Cons_iff list_ex_Nil_iff str_includes_iff simp_thms)
  show "getViolationSeverity ''Blocked key pressed: I'' = Low"
    unfolding getViolationSeverity_def highSeverity_def mediumSeverity_def
    by (simp add: str_includes_sublist del: str_includes.simps) code_simp
qed

subsection \<open>Violation recorder and threshold policy\<close>

lemma autoSubmits_append: "autoSubmits (xs @ ys) = autoSubmits xs @ autoSubmits ys"
  by (induction xs rule: autoSubmits.induct) simp_all

lemma recordViolation_violations:
  "violations (recordViolation ty w) =
     violations w @ [\<lparr>type = ty, timestamp = now w, severity = getViolationSeverity ty\<rparr>]"
  by (simp add: recordViolation_def triggerAutoSubmit_def emit_def Let_def)

lemma recordViolation_fields:
  "isActive (recordViolation ty w) = isActive w"
  "alertThreshold (recordViolation ty w) = alertThreshold w"
  "options (recordViolation ty w) = options w"
  "stream (recordViolation ty w) = stream w"
  "video (recordViolation ty w) = video w"
  "faceDetectionModel (recordViolation ty w) = faceDetectionModel w"
  "lastFacePosition (recordViolation ty w) = lastFacePosition w"
  "lastBrightness (recordViolation ty w) = lastBrightness w"
  "now (recordViolation ty w) = now w"
  "listeners (recordViolation ty w) = listeners w"
  "fullscreenSupport (recordViolation ty w) = fullscreenSupport w"
  by (simp_all add: recordViolation_def triggerAutoSubmit_def emit_def Let_def)

lemma recordViolation_trace:
  "trace (recordViolation ty w) =
     trace w @ [Console Warn ''Test violation:'',
                OnViolation \<lparr>type = ty, timestamp = now w, severity = getViolationSeverity ty\<rparr>
                  (violations (recordViolation ty w))]
       @ (if alertThreshold w \<le> length (violations w) + 1
          then [Console Warn ''Multiple violations detected - triggering auto-submit'',
                DispatchEvent ''testAutoSubmit'' ''Multiple violations detected''
                  (violations (recordViolation ty w))]
          else [])"
  by (simp add: recordViolation_def triggerAutoSubmit_def emit_def Let_def)

lemma recordViolation_autoSubmits:
  "autoSubmits (trace (recordViolation ty w)) =
     autoSubmits (trace w) @
       (if alertThreshold w \<le> length (violations w) + 1
        then [(''Multiple violations detected'', violations (recordViolation ty w))] else [])"
  by (simp add: recordViolation_trace autoSubmits_append)

lemma fold_recordViolation_length:
  "length (violations (fold recordViolation tys w)) = length (violations w) + length tys"
  by (induction tys arbitrary: w) (simp_all add: recordViolation_violations)

lemma fold_recordViolation_count:
  "length (autoSubmits (trace (fold recordViolation tys w))) =
     length (autoSubmits (trace w))
       + (length (violations w) + length tys + 1 - max (alertThreshold w) (length (violations w) + 1))"
proof (induction tys arbitrary: w)
  case Nil
  show ?case by simp
next
  case (Cons ty tys)
  show ?case
    by (auto simp add: Cons.IH recordViolation_fields recordViolation_violations
        recordViolation_autoSubmits max_def)
qed

text \<open>
  C5. Each call of \<open>recordViolation\<close> appends one violation and raises the auto-submit
  signal, with reason "Multiple violations detected" and the full log of that instant,
  exactly when the log length after the append is at least \<open>alertThreshold\<close>. With a
  threshold of 3 and an empty log, the first two recordings raise nothing and every
  recording from the third on raises one more signal: after \<open>n\<close> recordings \<open>n - 2\<close>
  signals have been raised.
\<close>

theorem recordViolation_threshold:
  "length (violations (recordViolation ty w)) = length (violations w) + 1
   \<and> autoSubmits (trace (recordViolation ty w)) =
       autoSubmits (trace w) @
         (if alertThreshold w \<le> length (violations (recordViolation ty w))
          then [(''Multiple violations detected'', violations (recordViolation ty w))] else [])
   \<and> (alertThreshold w = 3 \<and> violations w = [] \<longrightarrow>
        length (autoSubmits (trace (fold recordViolation tys w))) =
          length (autoSubmits (trace w)) + (length tys - 2))"
  by (simp add: recordViolation_autoSubmits recordViolation_violations fold_recordViolation_count)

theorem recordViolation_threshold_witness:
  "length (autoSubmits (trace (fold recordViolation
      [''Window lost focus'', ''Right-click attempted'']
      (TestMonitor defaultOptions ''2024-01-01T00:00:00.000Z'' [])))) = 0
   \<and> length (autoSubmits (trace (fold recordViolation
      [''Window lost focus'', ''Right-click attempted'', ''Tab switch detected'']
      (TestMonitor defaultOptions ''2024-01-01T00:00:00.000Z'' [])))) = 1
   \<and> length (autoSubmits (trace (fold recordViolation
      [''Window lost focus'', ''Right-click attempted'', ''Tab switch detected'',
       ''Exited fullscreen mode'']
      (TestMonitor defaultOptions ''2024-01-01T00:00:00.000Z'' [])))) = 2"
  using
    recordViolation_threshold [of "''x''" "TestMonitor defaultOptions ''2024-01-01T00:00:00.000Z'' []"
      "[''Window lost focus'', ''Right-click attempted'']"]
    recordViolation_threshold [of "''x''" "TestMonitor defaultOptions ''2024-01-01T00:00:00.000Z'' []"
      "[''Window lost focus'', ''Right-click attempted'', ''Tab switch detected'']"]
    recordViolation_threshold [of "''x''" "TestMonitor defaultOptions ''2024-01-01T00:00:00.000Z'' []"
      "[''Window lost focus'', ''Right-click attempted'', ''Tab switch detected'',
        ''Exited fullscreen mode'']"]
  by (simp add: TestMonitor_def)

subsection \<open>Signal listeners\<close>

lemma listenerBody_inactive: "\<not> isActive w \<Longrightarrow> listenerBody l ev w = w"
  by (induction l ev w rule: listenerBody.induct) simp_all

lemma fold_listenerBody_inactive:
  "\<not> isActive w \<Longrightarrow> fold (\<lambda>l. listenerBody l ev) ls w = w"
  by (induction ls) (simp_all add: listenerBody_inactive)

lemma deliver_inactive: "\<not> isActive w \<Longrightarrow> deliver ce w = w\<lparr>now := fst ce\<rparr>"
  by (simp add: deliver_def fold_listenerBody_inactive)

lemma fold_deliver_inactive:
  "\<not> isActive w \<Longrightarrow>
     \<not> isActive (fold deliver events w)
     \<and> violations (fold deliver events w) = violations w
     \<and> trace (fold deliver events w) = trace w"
  by (induction events arbitrary: w) (simp_all add: deliver_inactive)

text \<open>
  C2. While \<open>isActive\<close> is false, no sequence of delivered events (visibility change,
  blur, fullscreen change, keydown, context menu, selection start), whatever listeners
  are registered, appends a violation: the log and the trace of outside calls stay as
  they were, and the monitor stays inactive.
\<close>

theorem inactive_listeners_record_nothing:
  "\<not> isActive w \<Longrightarrow>
     violations (fold deliver events w) = violations w
     \<and> trace (fold deliver events w) = trace w
     \<and> \<not> isActive (fold deliver events w)"
  using fold_deliver_inactive by blast

theorem inactive_listeners_record_nothing_witness:
  "\<not> isActive (snd (initialize (Inr [Live]) False (TestMonitor defaultOptions ''t0'' [])))
   \<and> listeners (snd (initialize (Inr [Live]) False (TestMonitor defaultOptions ''t0'' []))) =
       [OnVisibilityChange, OnBlur, OnFullscreenChange, OnKeydown, OnContextMenu, OnSelectStart]
   \<and> violations (fold deliver
        [(''t1'', Visibilitychange True), (''t2'', Blur), (''t3'', Fullscreenchange False),
         (''t4'', Keydown \<lparr>key = ''F12'', ctrlKey = False, shiftKey = False, altKey = False\<rparr>),
         (''t5'', Contextmenu)]
        (snd (initialize (Inr [Live]) False (TestMonitor defaultOptions ''t0'' [])))) = []"
  using inactive_listeners_record_nothing
    [of "snd (initialize (Inr [Live]) False (TestMonitor defaultOptions ''t0'' []))"
        "[(''t1'', Visibilitychange True), (''t2'', Blur), (''t3'', Fullscreenchange False),
         (''t4'', Keydown \<lparr>key = ''F12'', ctrlKey = False, shiftKey = False, altKey = False\<rparr>),
         (''t5'', Contextmenu)]"]
  by (simp add: initialize_def setupCamera_def loadFaceDetection_def setupEventListeners_def
      TestMonitor_def defaultOptions_def emit_def)

subsection \<open>Lifecycle\<close>

lemma emit_fields:
  "isActive (emit e w) = isActive w"
  "violations (emit e w) = violations w"
  "options (emit e w) = options w"
  "stream (emit e w) = stream w"
  "video (emit e w) = video w"
  "faceDetectionModel (emit e w) = faceDetectionModel w"
  "lastFacePosition (emit e w) = lastFacePosition w"
  "lastBrightness (emit e w) = lastBrightness w"
  "alertThreshold (emit e w) = alertThreshold w"
  "now (emit e w) = now w"
  "listeners (emit e w) = listeners w"
  "fullscreenSupport (emit e w) = fullscreenSupport w"
  "trace (emit e w) = trace w @ [e]"
  by (simp_all add: emit_def)

lemma enterFullscreen_fields:
  "isActive (enterFullscreen w) = isActive w"
  "violations (enterFullscreen w) = violations w"
  by (simp_all add: enterFullscreen_def emit_fields)

lemma severity_movement: "getViolationSeverity ''Significant movement detected'' = Low"
  unfolding getViolationSeverity_def highSeverity_def mediumSeverity_def
  by (simp add: str_includes_sublist del: str_includes.simps) code_simp

lemma analyzeFacePosition_fallback_violations:
  "violations (analyzeFacePosition_fallback pixels w) =
     (if truthy (lastBrightness w) \<and> absDiffExceeds (meanBrightness pixels) (lastBrightness w) 20
      then violations w @ [\<lparr>type = ''Significant movement detected'', timestamp = now w,
                              severity = Low\<rparr>]
      else violations w)"
  by (simp add: analyzeFacePosition_fallback_def Let_def recordViolation_violations
      severity_movement)

lemma analyzeFacePosition_fallback_isActive:
  "isActive (analyzeFacePosition_fallback pixels w) = isActive w"
  by (simp add: analyzeFacePosition_fallback_def Let_def recordViolation_fields)

lemma startCameraAnalysis_isActive:
  "isActive (snd (startCameraAnalysis imageData w)) = isActive w"
  by (simp add: startCameraAnalysis_def analyzeFacePosition_fallback_isActive)

lemma startCameraAnalysis_violations:
  "violations (snd (startCameraAnalysis imageData w)) =
     (if isActive w \<and> video w \<noteq> None \<and> \<not> faceDetectionModel w
      then violations (analyzeFacePosition_fallback imageData w) else violations w)"
  by (auto simp add: startCameraAnalysis_def)

lemma startMonitoring_fields:
  "options (snd (startMonitoring imageData w)) = options w"
  "video (snd (startMonitoring imageData w)) = video w"
  "faceDetectionModel (snd (startMonitoring imageData w)) = faceDetectionModel w"
  "now (snd (startMonitoring imageData w)) = now w"
  by (simp_all add: startMonitoring_def startCameraAnalysis_def analyzeFacePosition_fallback_def
      enterFullscreen_def Let_def split_beta emit_fields recordViolation_fields)

lemma startMonitoring_lastBrightness:
  "lastBrightness (snd (startMonitoring imageData w)) =
     (if enableCameraMonitoring (options w) \<and> video w \<noteq> None \<and> \<not> faceDetectionModel w
      then Some (meanBrightness imageData) else lastBrightness w)"
  by (auto simp add: startMonitoring_def startCameraAnalysis_def analyzeFacePosition_fallback_def
      enterFullscreen_def Let_def split_beta emit_fields recordViolation_fields)

lemma startMonitoring_violations:
  "violations (snd (startMonitoring imageData w)) =
       (if enableCameraMonitoring (options w) \<and> video w \<noteq> None \<and> \<not> faceDetectionModel w
           \<and> truthy (lastBrightness w)
           \<and> absDiffExceeds (meanBrightness imageData) (lastBrightness w) 20
        then [\<lparr>type = ''Significant movement detected'', timestamp = now w, severity = Low\<rparr>]
        else [])"
  by (simp add: startMonitoring_def Let_def split_beta emit_fields enterFullscreen_fields
      startCameraAnalysis_violations analyzeFacePosition_fallback_violations)

lemma startMonitoring_isActive: "isActive (snd (startMonitoring imageData w))"
  by (simp add: startMonitoring_def Let_def split_beta emit_fields enterFullscreen_fields
      startCameraAnalysis_isActive)



lemma cameraErrors_append: "cameraErrors (xs @ ys) = cameraErrors xs @ cameraErrors ys"
  by (induction xs rule: cameraErrors.induct) simp_all

lemma setupEventListeners_listeners:
  "listeners (setupEventListeners w) =
     listeners w
       @ (if enableTabSwitchDetection (options w) then [OnVisibilityChange, OnBlur] else [])
       @ (if enableFullscreenMonitoring (options w) then [OnFullscreenChange] else [])
       @ (if enableKeyboardMonitoring (options w) then [OnKeydown] else [])
       @ [OnContextMenu, OnSelectStart]"
  by (simp add: setupEventListeners_def Let_def)

lemma setupEventListeners_trace: "trace (setupEventListeners w) = trace w"
  by (simp add: setupEventListeners_def Let_def)

lemma initialize_failure:
  "enableCameraMonitoring (options w) \<Longrightarrow>
     initialize (Inl message) faceDetectorInWindow w =
       (False, w\<lparr>trace := trace w @ [Console Error ''Failed to initialize test monitor:'',
                                       OnCameraError (''Camera access denied: '' @ message)]\<rparr>)"
  by (simp add: initialize_def setupCamera_def emit_def)

lemma initialize_success:
  "\<not> enableCameraMonitoring (options w) \<or> getUserMedia = Inr tracks \<Longrightarrow>
     fst (initialize getUserMedia faceDetectorInWindow w)
     \<and> listeners (snd (initialize getUserMedia faceDetectorInWindow w)) =
         listeners w
           @ (if enableTabSwitchDetection (options w) then [OnVisibilityChange, OnBlur] else [])
           @ (if enableFullscreenMonitoring (options w) then [OnFullscreenChange] else [])
           @ (if enableKeyboardMonitoring (options w) then [OnKeydown] else [])
           @ [OnContextMenu, OnSelectStart]
     \<and> cameraErrors (trace (snd (initialize getUserMedia faceDetectorInWindow w))) =
         cameraErrors (trace w)"
  by (auto simp add: initialize_def setupCamera_def loadFaceDetection_def emit_def
      setupEventListeners_listeners setupEventListeners_trace cameraErrors_append
      split: sum.splits)

text \<open>
  C1, as amended. With camera monitoring enabled and capture acquisition failing,
  \<open>initialize\<close> returns \<open>False\<close> (it does not raise), calls \<^verbatim>\<open>onCameraError\<close> exactly once, with
  the wrapped message, and changes nothing else: the error leaves the \<^verbatim>\<open>try\<close> block before
  \<^verbatim>\<open>setupEventListeners\<close>, so no listener is registered. The enabled listeners are
  registered, and \<^verbatim>\<open>onCameraError\<close> is not called, exactly when the camera step does not
  fail: camera monitoring is disabled or the capture is acquired.
\<close>

theorem initialize_camera_failure:
  "(enableCameraMonitoring (options w) \<longrightarrow>
      \<not> fst (initialize (Inl message) faceDetectorInWindow w)
      \<and> cameraErrors (trace (snd (initialize (Inl message) faceDetectorInWindow w))) =
          cameraErrors (trace w) @ [''Camera access denied: '' @ message]
      \<and> listeners (snd (initialize (Inl message) faceDetectorInWindow w)) = listeners w
      \<and> snd (initialize (Inl message) faceDetectorInWindow w) =
          w\<lparr>trace := trace (snd (initialize (Inl message) faceDetectorInWindow w))\<rparr>)
   \<and> (\<not> enableCameraMonitoring (options w) \<or> getUserMedia = Inr tracks \<longrightarrow>
      fst (initialize getUserMedia faceDetectorInWindow w)
      \<and> listeners (snd (initialize getUserMedia faceDetectorInWindow w)) =
          listeners w
            @ (if enableTabSwitchDetection (options w) then [OnVisibilityChange, OnBlur] else [])
            @ (if enableFullscreenMonitoring (options w) then [OnFullscreenChange] else [])
            @ (if enableKeyboardMonitoring (options w) then [OnKeydown] else [])
            @ [OnContextMenu, OnSelectStart]
      \<and> cameraErrors (trace (snd (initialize getUserMedia faceDetectorInWindow w))) =
          cameraErrors (trace w))"
proof (intro conjI impI)
  assume cam: "enableCameraMonitoring (options w)"
  note f = initialize_failure [OF cam, of message faceDetectorInWindow]
  show "\<not> fst (initialize (Inl message) faceDetectorInWindow w)"
    by (simp add: f)
  show "cameraErrors (trace (snd (initialize (Inl message) faceDetectorInWindow w))) =
          cameraErrors (trace w) @ [''Camera access denied: '' @ message]"
    by (simp add: f cameraErrors_append)
  show "listeners (snd (initialize (Inl message) faceDetectorInWindow w)) = listeners w"
    by (simp add: f)
  show "snd (initialize (Inl message) faceDetectorInWindow w) =
          w\<lparr>trace := trace (snd (initialize (Inl message) faceDetectorInWindow w))\<rparr>"
    by (simp add: f)
next
  assume ok: "\<not> enableCameraMonitoring (options w) \<or> getUserMedia = Inr tracks"
  note s = initialize_success [OF ok, of faceDetectorInWindow]
  show "fst (initialize getUserMedia faceDetectorInWindow w)"
    using s by blast
  show "listeners (snd (initialize getUserMedia faceDetectorInWindow w)) =
          listeners w
            @ (if enableTabSwitchDetection (options w) then [OnVisibilityChange, OnBlur] else [])
            @ (if enableFullscreenMonitoring (options w) then [OnFullscreenChange] else [])
            @ (if enableKeyboardMonitoring (options w) then [OnKeydown] else [])
            @ [OnContextMenu, OnSelectStart]"
    using s by blast
  show "cameraErrors (trace (snd (initialize getUserMedia faceDetectorInWindow w))) =
          cameraErrors (trace w)"
    using s by blast
qed

theorem initialize_camera_failure_witness:
  "enableCameraMonitoring (options (TestMonitor defaultOptions ''t0'' []))
   \<and> initialize (Inl ''Permission denied'') True (TestMonitor defaultOptions ''t0'' []) =
       (False, (TestMonitor defaultOptions ''t0'' [])
                 \<lparr>trace := [Console Error ''Failed to initialize test monitor:'',
                             OnCameraError ''Camera access denied: Permission denied'']\<rparr>)
   \<and> listeners (snd (initialize (Inr [Live]) True (TestMonitor defaultOptions ''t0'' []))) =
       [OnVisibilityChange, OnBlur, OnFullscreenChange, OnKeydown, OnContextMenu, OnSelectStart]"
  using initialize_camera_failure
    [of "TestMonitor defaultOptions ''t0'' []" "''Permission denied''" True "Inr [Live]" "[Live]"]
  by (simp add: TestMonitor_def defaultOptions_def initialize_def setupCamera_def emit_def)

text \<open>
  Registration is not independent of the camera outcome: the default configuration
  enables every signal listener, and after a failed capture acquisition none is
  registered.
\<close>

theorem initialize_camera_failure_counterexample:
  "enableTabSwitchDetection defaultOptions \<and> enableFullscreenMonitoring defaultOptions
   \<and> enableKeyboardMonitoring defaultOptions
   \<and> listeners (snd (initialize (Inl ''Permission denied'') True
        (TestMonitor defaultOptions ''t0'' []))) = []"
  by (simp add: TestMonitor_def defaultOptions_def initialize_def setupCamera_def emit_def)

subsection \<open>Stopping\<close>

lemma stopMonitoring_fields:
  "isActive (stopMonitoring w) = False"
  "stream (stopMonitoring w) = map_option (map (\<lambda>track. Ended)) (stream w)"
  "video (stopMonitoring w) = map_option (\<lambda>v. Detached) (video w)"
  "violations (stopMonitoring w) = violations w"
  "trace (stopMonitoring w) = trace w @ [Console Log ''Test monitoring stopped'']"
  by (auto simp add: stopMonitoring_def Let_def emit_def split: option.splits)

lemma stopMonitoring_twice:
  "stopMonitoring (stopMonitoring w) =
     (stopMonitoring w)\<lparr>trace := trace (stopMonitoring w) @ [Console Log ''Test monitoring stopped'']\<rparr>"
  by (simp add: stopMonitoring_def Let_def emit_def split: option.splits)

text \<open>
  C8. \<open>stopMonitoring\<close> clears \<open>isActive\<close>, leaves every track of the held stream ended and
  the video element out of the document, from every state (so also right after
  \<open>initialize\<close>, never started), and a second call changes nothing but the console: it
  logs its message again.
\<close>

theorem stopMonitoring_releases:
  "\<not> isActive (stopMonitoring w)
   \<and> (case stream (stopMonitoring w) of
         None \<Rightarrow> stream w = None
       | Some tracks \<Rightarrow> set tracks \<subseteq> {Ended})
   \<and> (case video (stopMonitoring w) of
         None \<Rightarrow> video w = None
       | Some v \<Rightarrow> v = Detached)
   \<and> stopMonitoring (stopMonitoring w) =
       (stopMonitoring w)\<lparr>trace := trace (stopMonitoring w)
                                      @ [Console Log ''Test monitoring stopped'']\<rparr>"
  by (auto simp add: stopMonitoring_fields stopMonitoring_twice split: option.splits)

theorem stopMonitoring_releases_witness:
  "stream (snd (initialize (Inr [Live]) True (TestMonitor defaultOptions ''t0'' []))) = Some [Live]
   \<and> video (snd (initialize (Inr [Live]) True (TestMonitor defaultOptions ''t0'' []))) = Some Attached
   \<and> stream (stopMonitoring
        (snd (initialize (Inr [Live]) True (TestMonitor defaultOptions ''t0'' [])))) = Some [Ended]
   \<and> video (stopMonitoring
        (snd (initialize (Inr [Live]) True (TestMonitor defaultOptions ''t0'' [])))) = Some Detached
   \<and> \<not> isActive (stopMonitoring
        (snd (initialize (Inr [Live]) True (TestMonitor defaultOptions ''t0'' []))))"
  using stopMonitoring_releases
    [of "snd (initialize (Inr [Live]) True (TestMonitor defaultOptions ''t0'' []))"]
  by (simp add: stopMonitoring_def Let_def TestMonitor_def defaultOptions_def initialize_def
      setupCamera_def loadFaceDetection_def setupEventListeners_def emit_def)

subsection \<open>Presence analyzer\<close>






lemma nativeMonitor_simps:
  "faceDetectionModel nativeMonitor" "isActive nativeMonitor = False"
  "violations nativeMonitor = []" "lastFacePosition nativeMonitor = None"
  "video nativeMonitor = Some Attached" "stream nativeMonitor = Some [Live]"
  "now nativeMonitor = ''2024-01-01T00:00:00.000Z''" "alertThreshold nativeMonitor = 3"
  "enableCameraMonitoring (options nativeMonitor)" "trace nativeMonitor = []"
  by (simp_all add: nativeMonitor_def freshMonitor_def initialize_def setupCamera_def
      loadFaceDetection_def setupEventListeners_def TestMonitor_def defaultOptions_def emit_def)

lemma fallbackMonitor_simps:
  "faceDetectionModel fallbackMonitor = False" "isActive fallbackMonitor = False"
  "violations fallbackMonitor = []" "lastBrightness fallbackMonitor = None"
  "video fallbackMonitor = Some Attached" "stream fallbackMonitor = Some [Live]"
  "now fallbackMonitor = ''2024-01-01T00:00:00.000Z''" "alertThreshold fallbackMonitor = 3"
  "enableCameraMonitoring (options fallbackMonitor)"
  "enableFullscreenMonitoring (options fallbackMonitor)"
  "fullscreenSupport fallbackMonitor = [RequestFullscreen]"
  "trace fallbackMonitor = [Console Warn ''Face detection API not available, using fallback method'']"
  by (simp_all add: fallbackMonitor_def freshMonitor_def initialize_def setupCamera_def
      loadFaceDetection_def setupEventListeners_def TestMonitor_def defaultOptions_def emit_def)


subsection \<open>Camera sampler\<close>

lemma scheduled_append: "scheduled (xs @ ys) = scheduled xs @ scheduled ys"
  by (induction xs rule: scheduled.induct) simp_all

lemma recordViolation_scheduled:
  "scheduled (trace (recordViolation ty w)) = scheduled (trace w)"
  by (simp add: recordViolation_trace scheduled_append)

lemma native_isActive: "isActive (analyzeFacePosition_native faces w) = isActive w"
  by (induction faces w rule: analyzeFacePosition_native.induct)
    (simp_all add: Let_def recordViolation_fields emit_def split: option.splits)

lemma native_scheduled:
  "scheduled (trace (analyzeFacePosition_native faces w)) = scheduled (trace w)"
  by (induction faces w rule: analyzeFacePosition_native.induct)
    (simp_all add: Let_def recordViolation_scheduled emit_def scheduled_append
      split: option.splits)

lemma native_failure:
  "violations (analyzeFacePosition_native (DetectFailed error) w) = violations w"
  "lastFacePosition (analyzeFacePosition_native (DetectFailed error) w) = lastFacePosition w"
  by (simp_all add: emit_def)

lemma resume_scheduled:
  "scheduled (trace (resumeCameraAnalysis c faces w)) =
     scheduled (trace w) @ (if isActive w \<and> c \<noteq> Returned then [1000] else [])"
  by (cases c)
    (simp_all add: resumeCameraAnalysis_def Let_def native_isActive native_scheduled emit_def
      scheduled_append)

lemma resume_failure_violations:
  "violations (resumeCameraAnalysis c (DetectFailed error) w) = violations w"
  by (cases c) (simp_all add: resumeCameraAnalysis_def Let_def emit_def)

lemma whole_cycle:
  "resumeCameraAnalysis (fst (startCameraAnalysis imageData w)) faces
       (snd (startCameraAnalysis imageData w)) =
     (if isActive w \<and> video w \<noteq> None
      then emit (SetTimeout 1000) (analyzeFacePosition imageData faces w) else w)"
  by (auto simp add: startCameraAnalysis_def resumeCameraAnalysis_def analyzeFacePosition_def
      Let_def native_isActive analyzeFacePosition_fallback_isActive)

lemma occur_inactive:
  "\<not> isActive w \<Longrightarrow>
     \<not> isActive (occur x w) \<and> scheduled (trace (occur x w)) = scheduled (trace w)"
  by (cases x)
    (simp_all add: startCameraAnalysis_def resume_scheduled resumeCameraAnalysis_def Let_def
      native_isActive native_scheduled deliver_inactive stopMonitoring_fields
      scheduled_append
      split: cycle.splits)

lemma fold_occur_inactive:
  "\<not> isActive w \<Longrightarrow>
     \<not> isActive (fold occur xs w) \<and> scheduled (trace (fold occur xs w)) = scheduled (trace w)"
proof (induction xs arbitrary: w)
  case Nil
  then show ?case by simp
next
  case (Cons x xs)
  from Cons.prems have "\<not> isActive (occur x w)"
    and s: "scheduled (trace (occur x w)) = scheduled (trace w)"
    using occur_inactive by blast+
  then show ?case using Cons.IH [of "occur x w"] by simp
qed

text \<open>
  C9. A sampler cycle that starts while the monitor is inactive returns at its guard and
  changes nothing; the rest of a cycle, run when the awaited analysis settles, sets the
  next timer, of 1000 ms, exactly when the monitor is active at that time, and none
  otherwise. So once \<open>isActive\<close> is false no timer is set any more, whatever timers fire,
  analyses settle or events arrive afterwards: the loop ends by itself, and nothing has
  to be cancelled. A cycle with nothing in between captures the frame, runs
  \<open>analyzeFacePosition\<close> on it and then sets the timer. A failed detection records no
  violation and does not keep the cycle from setting the next timer.
\<close>

theorem sampler_reschedules_only_while_active:
  "(\<not> isActive w \<longrightarrow>
      startCameraAnalysis imageData w = (Returned, w)
      \<and> scheduled (trace (resumeCameraAnalysis c faces w)) = scheduled (trace w)
      \<and> scheduled (trace (fold occur xs w)) = scheduled (trace w))
   \<and> (isActive w \<and> c \<noteq> Returned \<longrightarrow>
      scheduled (trace (resumeCameraAnalysis c faces w)) = scheduled (trace w) @ [1000])
   \<and> resumeCameraAnalysis (fst (startCameraAnalysis imageData w)) faces
         (snd (startCameraAnalysis imageData w)) =
       (if isActive w \<and> video w \<noteq> None
        then emit (SetTimeout 1000) (analyzeFacePosition imageData faces w) else w)
   \<and> violations (resumeCameraAnalysis c (DetectFailed error) w) = violations w
   \<and> scheduled (trace (resumeCameraAnalysis AwaitingDetect (DetectFailed error) w)) =
       scheduled (trace w) @ (if isActive w then [1000] else [])"
proof -
  have guard: "\<not> isActive w \<longrightarrow> startCameraAnalysis imageData w = (Returned, w)"
    by (simp add: startCameraAnalysis_def)
  have run: "\<not> isActive w \<longrightarrow> scheduled (trace (fold occur xs w)) = scheduled (trace w)"
    using fold_occur_inactive by blast
  show ?thesis
    using guard run by (simp add: resume_scheduled resume_failure_violations whole_cycle)
qed

theorem sampler_reschedules_only_while_active_witness:
  "isActive (snd (startMonitoring [] nativeMonitor))
   \<and> scheduled (trace (resumeCameraAnalysis AwaitingDetect (DetectFailed ''detect failed'')
        (snd (startMonitoring [] nativeMonitor)))) = [1000]
   \<and> violations (resumeCameraAnalysis AwaitingDetect (DetectFailed ''detect failed'')
        (snd (startMonitoring [] nativeMonitor))) = []
   \<and> \<not> isActive (stopMonitoring (snd (startMonitoring [] nativeMonitor)))
   \<and> scheduled (trace (resumeCameraAnalysis AwaitingDetect (Detected [])
        (stopMonitoring (snd (startMonitoring [] nativeMonitor))))) = []
   \<and> startCameraAnalysis [] (stopMonitoring (snd (startMonitoring [] nativeMonitor))) =
       (Returned, stopMonitoring (snd (startMonitoring [] nativeMonitor)))
   \<and> scheduled (trace (fold occur
        [AnalysisSettles AwaitingDetect (Detected []), TimerFires [],
         EventArrives (''2024-01-01T00:00:09.000Z'', Blur), TimerFires []]
        (stopMonitoring (snd (startMonitoring [] nativeMonitor))))) = []"
proof -
  let ?w = "snd (startMonitoring [] nativeMonitor)"
  have w: "isActive ?w" "violations ?w = []" "scheduled (trace ?w) = []"
    by (simp_all add: startMonitoring_def startCameraAnalysis_def enterFullscreen_def Let_def
        nativeMonitor_def freshMonitor_def initialize_def setupCamera_def
        loadFaceDetection_def setupEventListeners_def TestMonitor_def defaultOptions_def
        emit_def)
  have s: "\<not> isActive (stopMonitoring ?w)" "scheduled (trace (stopMonitoring ?w)) = []"
    by (simp_all add: stopMonitoring_fields scheduled_append w)
  show ?thesis
    using
      sampler_reschedules_only_while_active
        [where w = ?w and c = AwaitingDetect and faces = "DetectFailed ''detect failed''"
           and error = "''detect failed''"]
      sampler_reschedules_only_while_active
        [where w = "stopMonitoring ?w" and imageData = "[]" and c = AwaitingDetect
           and faces = "Detected []"
           and xs = "[AnalysisSettles AwaitingDetect (Detected []), TimerFires [],
              EventArrives (''2024-01-01T00:00:09.000Z'', Blur), TimerFires []]"]
    by (simp add: w s)
qed

subsection \<open>Fallback brightness path\<close>

lemma fallback_zero:
  "lastBrightness w = Some (Num 0) \<Longrightarrow>
     analyzeFacePosition_fallback imageData w = w\<lparr>lastBrightness := Some (meanBrightness imageData)\<rparr>"
  by (simp add: analyzeFacePosition_fallback_def Let_def)

text \<open>
  C10. On the fallback path, a stored previous brightness of exactly 0 is falsy for the
  test \<^verbatim>\<open>this.lastBrightness && ...\<close>: whatever the frame, nothing is recorded and nothing is
  called, and only \<open>lastBrightness\<close> changes, to the mean brightness of the frame.
\<close>

theorem fallback_zero_brightness_is_no_sample:
  "\<not> faceDetectionModel w \<Longrightarrow> lastBrightness w = Some (Num 0) \<Longrightarrow>
     analyzeFacePosition imageData faces w =
       w\<lparr>lastBrightness := Some (meanBrightness imageData)\<rparr>"
  by (simp add: analyzeFacePosition_def fallback_zero)

lemma meanBrightness_examples:
  "meanBrightness [(0, 0, 0, 255)] = Num 0"
  "meanBrightness [(255, 255, 255, 255)] = Num 255"
  "meanBrightness [(3, 3, 3, 255)] = Num 3"
  by (simp_all add: meanBrightness_def)

theorem fallback_zero_brightness_is_no_sample_witness:
  "\<not> faceDetectionModel (snd (startMonitoring [(0, 0, 0, 255)] fallbackMonitor))
   \<and> lastBrightness (snd (startMonitoring [(0, 0, 0, 255)] fallbackMonitor)) = Some (Num 0)
   \<and> violations (analyzeFacePosition [(255, 255, 255, 255)] (Detected [])
        (snd (startMonitoring [(0, 0, 0, 255)] fallbackMonitor))) = []
   \<and> lastBrightness (analyzeFacePosition [(255, 255, 255, 255)] (Detected [])
        (snd (startMonitoring [(0, 0, 0, 255)] fallbackMonitor))) = Some (Num 255)"
proof -
  let ?w = "snd (startMonitoring [(0, 0, 0, 255)] fallbackMonitor)"
  have w: "\<not> faceDetectionModel ?w" "lastBrightness ?w = Some (Num 0)" "violations ?w = []"
    by (simp_all add: startMonitoring_fields startMonitoring_lastBrightness
        startMonitoring_violations fallbackMonitor_simps meanBrightness_examples)
  show ?thesis
    using fallback_zero_brightness_is_no_sample
      [OF w(1) w(2), of "[(255, 255, 255, 255)]" "Detected []"]
    by (simp add: w meanBrightness_examples)
qed

lemma fallback_nonzero_brightness_records:
  "violations (analyzeFacePosition [(255, 255, 255, 255)] (Detected [])
        (snd (startMonitoring [(3, 3, 3, 255)] fallbackMonitor))) =
     [\<lparr>type = ''Significant movement detected'', timestamp = ''2024-01-01T00:00:00.000Z'',
       severity = Low\<rparr>]"
proof -
  let ?w = "snd (startMonitoring [(3, 3, 3, 255)] fallbackMonitor)"
  have w: "\<not> faceDetectionModel ?w" "lastBrightness ?w = Some (Num 3)" "violations ?w = []"
    "now ?w = ''2024-01-01T00:00:00.000Z''"
    by (simp_all add: startMonitoring_fields startMonitoring_lastBrightness
        startMonitoring_violations fallbackMonitor_simps meanBrightness_examples)
  show ?thesis
    by (simp add: analyzeFacePosition_def analyzeFacePosition_fallback_violations w
        meanBrightness_examples)
qed

subsection \<open>Summary reporter\<close>








text \<open>Every type that a call site of \<open>recordViolation\<close> passes is an ordinary name.\<close>

lemma recordViolation_types:
  "ty \<notin> set objectPrototype \<Longrightarrow>
     \<forall>v \<in> set (violations w). type v \<notin> set objectPrototype \<Longrightarrow>
     \<forall>v \<in> set (violations (recordViolation ty w)). type v \<notin> set objectPrototype"
  by (simp add: recordViolation_violations)











lemma nativeMonitor_listeners:
  "listeners nativeMonitor =
     [OnVisibilityChange, OnBlur, OnFullscreenChange, OnKeydown, OnContextMenu, OnSelectStart]"
  by (simp add: nativeMonitor_def freshMonitor_def initialize_def setupCamera_def
      loadFaceDetection_def setupEventListeners_def TestMonitor_def defaultOptions_def emit_def)

lemma startMonitoring_listeners:
  "listeners (snd (startMonitoring imageData w)) = listeners w"
  "alertThreshold (snd (startMonitoring imageData w)) = alertThreshold w"
  by (simp_all add: startMonitoring_def startCameraAnalysis_def analyzeFacePosition_fallback_def
      enterFullscreen_def Let_def split_beta emit_fields recordViolation_fields)


text \<open>The restriction to reachable states matters only for names that every object
  inherits: a log entry of such a type, which no call site of \<open>recordViolation\<close> produces,
  is counted as text, not as a number.\<close>

lemma summary_inherited_name:
  "byType (fst (getViolationSummary
      (freshMonitor\<lparr>violations := [\<lparr>type = ''constructor'', timestamp = [], severity = Low\<rparr>]\<rparr>)))
   = [(''constructor'', Text)]"
  by (simp add: getViolationSummary_def countKey_def getProp_def setProp_def objectPrototype_def)

subsection \<open>Scenarios\<close>

text \<open>The same five events that an inactive monitor ignores are each recorded by an
  active one, and the third recording on reaches the threshold.\<close>

lemma active_listeners_record:
  "map type (violations (fold deliver
        [(''t1'', Visibilitychange True), (''t2'', Blur), (''t3'', Fullscreenchange False),
         (''t4'', Keydown \<lparr>key = ''F12'', ctrlKey = False, shiftKey = False, altKey = False\<rparr>),
         (''t5'', Contextmenu)]
        (snd (startMonitoring [] nativeMonitor)))) =
     [''Tab switch detected'', ''Window lost focus'', ''Exited fullscreen mode'',
      ''Blocked key pressed: F12'', ''Right-click attempted'']"
proof -
  let ?w = "snd (startMonitoring [] nativeMonitor)"
  have w: "isActive ?w" "violations ?w = []"
    "listeners ?w =
      [OnVisibilityChange, OnBlur, OnFullscreenChange, OnKeydown, OnContextMenu, OnSelectStart]"
    by (simp_all add: startMonitoring_isActive startMonitoring_violations
        startMonitoring_listeners nativeMonitor_simps nativeMonitor_listeners)
  show ?thesis
    by (simp add: deliver_def w recordViolation_violations recordViolation_fields emit_fields
        blockedKeys_def)
qed

text \<open>Ctrl+Shift+I while active: the default action is prevented and the key is recorded,
  with severity low.\<close>

lemma blocked_combo_recorded:
  "violations (deliver
        (''t1'', Keydown \<lparr>key = ''I'', ctrlKey = True, shiftKey = True, altKey = False\<rparr>)
        (snd (startMonitoring [] nativeMonitor))) =
     [\<lparr>type = ''Blocked key pressed: I'', timestamp = ''t1'', severity = Low\<rparr>]
   \<and> PreventDefault \<in> set (trace (deliver
        (''t1'', Keydown \<lparr>key = ''I'', ctrlKey = True, shiftKey = True, altKey = False\<rparr>)
        (snd (startMonitoring [] nativeMonitor))))"
proof -
  let ?w = "snd (startMonitoring [] nativeMonitor)"
  have w: "isActive ?w" "violations ?w = []"
    "listeners ?w =
      [OnVisibilityChange, OnBlur, OnFullscreenChange, OnKeydown, OnContextMenu, OnSelectStart]"
    by (simp_all add: startMonitoring_isActive startMonitoring_violations
        startMonitoring_listeners nativeMonitor_simps nativeMonitor_listeners)
  have low: "getViolationSeverity ''Blocked key pressed: I'' = Low"
    unfolding getViolationSeverity_def highSeverity_def mediumSeverity_def
    by (simp add: str_includes_sublist del: str_includes.simps) code_simp
  show ?thesis
    by (simp add: deliver_def w recordViolation_violations recordViolation_fields
        recordViolation_trace emit_fields blockedKeys_def blockedCombos_def low)
qed

text \<open>The guards on \<open>isActive\<close> stand in the listeners and at the start of a sampler
  cycle. A detection that settles after \<open>stopMonitoring\<close> is still analysed, and its
  violation is recorded on the inactive monitor; the cycle then ends without a timer.\<close>

lemma detection_settling_after_stop:
  "\<not> isActive (stopMonitoring (snd (startMonitoring [] nativeMonitor)))
   \<and> map type (violations (resumeCameraAnalysis AwaitingDetect (Detected [])
        (stopMonitoring (snd (startMonitoring [] nativeMonitor))))) =
       [''No face detected - looking away'']
   \<and> scheduled (trace (resumeCameraAnalysis AwaitingDetect (Detected [])
        (stopMonitoring (snd (startMonitoring [] nativeMonitor))))) = []"
proof -
  let ?w = "snd (startMonitoring [] nativeMonitor)"
  have w: "violations ?w = []" "scheduled (trace ?w) = []"
    by (simp_all add: startMonitoring_def startCameraAnalysis_def enterFullscreen_def Let_def
        nativeMonitor_def freshMonitor_def initialize_def setupCamera_def
        loadFaceDetection_def setupEventListeners_def TestMonitor_def defaultOptions_def
        emit_def)
  show ?thesis
    by (simp add: stopMonitoring_fields scheduled_append w recordViolation_scheduled
        resumeCameraAnalysis_def Let_def recordViolation_violations recordViolation_fields)
qed

end
